theory Spec2Isabelle
  imports Complex_Main "HOL-Library.Sublist"
begin

section \<open>The error-handling examples of \<^verbatim>\<open>js/src/errorHandling.ts\<close>\<close>

subsection \<open>Safe indexed access\<close>

text \<open>
  \<^verbatim>\<open>
  export function squareOfSecondElement(list: number[]) {
      const i = list[1];
      return _.isNil(i) ? 0 : i * i;
  }
  \<close>
  Reading a JavaScript array beyond its length does not raise: it yields \<^verbatim>\<open>undefined\<close>.
  The read is therefore modelled with an option, \<open>None\<close> standing for \<^verbatim>\<open>undefined\<close>.
  The parameter is typed \<^verbatim>\<open>number[]\<close>, so the array is a list of numbers without holes.
  The carrier of the numbers is left open: any type with \<open>0\<close> and \<open>*\<close>, so that the
  product \<^verbatim>\<open>i * i\<close> is the carrier's own multiplication (for IEEE doubles, the rounded one).
\<close>

definition js_index :: "'a list \<Rightarrow> nat \<Rightarrow> 'a option" where
  "js_index xs k = (if k < length xs then Some (xs ! k) else None)"

text \<open>Ramda's \<^verbatim>\<open>isNil\<close> on the result of such a read: true for \<^verbatim>\<open>undefined\<close> only.\<close>

definition isNil_opt :: "'a option \<Rightarrow> bool" where
  "isNil_opt v = (case v of None \<Rightarrow> True | Some _ \<Rightarrow> False)"

definition squareOfSecondElement :: "('a :: {zero, times}) list \<Rightarrow> 'a" where
  "squareOfSecondElement list =
     (let i = js_index list 1
      in if isNil_opt i then 0 else (case i of Some v \<Rightarrow> v * v | None \<Rightarrow> 0))"

subsection \<open>JavaScript values\<close>

text \<open>
  A \<^verbatim>\<open>number\<close> is an IEEE double: a finite value (every finite double is a rational;
  the two zeros compare equal and are one value here), an infinity, or NaN. Only the
  comparison \<^verbatim>\<open><\<close> of the source is modelled on it, which is exact on doubles and false
  as soon as one side is NaN.
\<close>

datatype number = NaN | NegInfinity | Finite rat | PosInfinity

fun js_less :: "number \<Rightarrow> number \<Rightarrow> bool" where
  "js_less NaN _ = False"
| "js_less _ NaN = False"
| "js_less _ NegInfinity = False"
| "js_less NegInfinity _ = True"
| "js_less PosInfinity _ = False"
| "js_less (Finite a) PosInfinity = True"
| "js_less (Finite a) (Finite b) = (a < b)"

text \<open>
  \<^verbatim>\<open>a >= b\<close> in JavaScript: false when either side is NaN, otherwise the negation of
  \<^verbatim>\<open>a < b\<close>. The source never evaluates it; the statements about "age >= 30" use it.
\<close>

definition js_greater_eq :: "number \<Rightarrow> number \<Rightarrow> bool" where
  "js_greater_eq a b = (a \<noteq> NaN \<and> b \<noteq> NaN \<and> \<not> js_less a b)"

text \<open>
  The greeting functions take \<^verbatim>\<open>user: any\<close>. The values considered are the plain data
  values: \<^verbatim>\<open>undefined\<close>, \<^verbatim>\<open>null\<close>, booleans, numbers, strings, arrays and objects
  with data properties (an association list, first binding of a key). Functions, getters
  and proxies are outside the model, so no value but a string has a callable
  \<^verbatim>\<open>split\<close>.
\<close>

datatype jsval =
    JUndefined
  | JNull
  | JBoolean bool
  | JNumber number
  | JString string
  | JArray "jsval list"
  | JObject "(string \<times> jsval) list"

datatype error = TypeError

text \<open>
  \<^verbatim>\<open>v.name\<close>: reading a property of \<^verbatim>\<open>undefined\<close> or \<^verbatim>\<open>null\<close> throws a
  TypeError; an object yields the property's value, or \<^verbatim>\<open>undefined\<close> when it has none;
  booleans, numbers, strings and arrays have no property \<^verbatim>\<open>name\<close>.
\<close>

fun dot_name :: "jsval \<Rightarrow> error + jsval" where
  "dot_name JUndefined = Inl TypeError"
| "dot_name JNull = Inl TypeError"
| "dot_name (JObject props) =
     (case map_of props ''name'' of None \<Rightarrow> Inr JUndefined | Some v \<Rightarrow> Inr v)"
| "dot_name _ = Inr JUndefined"

text \<open>Ramda's \<^verbatim>\<open>isNil\<close>: true for \<^verbatim>\<open>undefined\<close> and \<^verbatim>\<open>null\<close>, false otherwise.\<close>

fun isNil :: "jsval \<Rightarrow> bool" where
  "isNil JUndefined = True"
| "isNil JNull = True"
| "isNil _ = False"

text \<open>
  \<^verbatim>\<open>String.prototype.split\<close> with a separator of one character: the pieces between the
  occurrences of the separator, empty pieces included; one more piece than there are
  separators.
\<close>

fun js_split :: "char \<Rightarrow> string \<Rightarrow> string list" where
  "js_split sep [] = [[]]"
| "js_split sep (c # cs) =
     (if c = sep then [] # js_split sep cs
      else (case js_split sep cs of [] \<Rightarrow> [[c]] | w # ws \<Rightarrow> (c # w) # ws))"

text \<open>
  \<^verbatim>\<open>v.split(' ')\<close>: a TypeError when \<open>v\<close> is \<^verbatim>\<open>undefined\<close> or \<^verbatim>\<open>null\<close> (the
  property read throws) and when \<open>v\<close> is any other value but a string (\<^verbatim>\<open>v.split\<close> is
  not a function).
\<close>

fun call_split :: "jsval \<Rightarrow> error + string list" where
  "call_split (JString s) = Inr (js_split (CHR '' '') s)"
| "call_split _ = Inl TypeError"

text \<open>
  \<^verbatim>\<open>'Hi ' + x\<close> where \<open>x\<close> was read from an array of strings: \<^verbatim>\<open>undefined\<close> is
  converted to the string \<^verbatim>\<open>undefined\<close>.
\<close>

definition plus_str :: "string \<Rightarrow> string option \<Rightarrow> string" where
  "plus_str s x = (case x of None \<Rightarrow> s @ ''undefined'' | Some t \<Rightarrow> s @ t)"

subsection \<open>Safe property access\<close>

text \<open>
  \<^verbatim>\<open>
  export function getGreeting(user: any) {
      // EAFP Style
      try {
          return 'Hi ' + user.name.split(' ')[0];
      } catch (ex) {
          return 'Hi ';
      }
  }
  \<close>
  The result is \<open>Inr\<close> of the returned string, or \<open>Inl\<close> of an exception that leaves the
  function.
\<close>

definition getGreeting_try :: "jsval \<Rightarrow> error + string" where
  "getGreeting_try user =
     (case dot_name user of
        Inl ex \<Rightarrow> Inl ex
      | Inr nm \<Rightarrow>
          (case call_split nm of
             Inl ex \<Rightarrow> Inl ex
           | Inr parts \<Rightarrow> Inr (plus_str ''Hi '' (js_index parts 0))))"

definition getGreeting :: "jsval \<Rightarrow> error + string" where
  "getGreeting user =
     (case getGreeting_try user of
        Inr s \<Rightarrow> Inr s
      | Inl ex \<Rightarrow> Inr ''Hi '')"

text \<open>
  \<^verbatim>\<open>
  export function getGreeting1(user: any) {
      // LBYL Style
      const name = user.name;
      if (_.isNil(name)) {
          return 'Hi ';
      } else {
          return 'Hi ' + user.name.split(' ')[0];
      }
  }
  \<close>
  Nothing is caught here: an exception of the first read of \<^verbatim>\<open>user.name\<close>, or of the
  \<^verbatim>\<open>else\<close> branch, leaves the function.
\<close>

definition getGreeting1 :: "jsval \<Rightarrow> error + string" where
  "getGreeting1 user =
     (case dot_name user of
        Inl ex \<Rightarrow> Inl ex
      | Inr nm \<Rightarrow>
          if isNil nm then Inr ''Hi ''
          else (case dot_name user of
                  Inl ex \<Rightarrow> Inl ex
                | Inr nm2 \<Rightarrow>
                    (case call_split nm2 of
                       Inl ex \<Rightarrow> Inl ex
                     | Inr parts \<Rightarrow> Inr (plus_str ''Hi '' (js_index parts 0)))))"

text \<open>
  The users on which the precondition check of \<open>getGreeting1\<close> is enough: the user is
  neither \<^verbatim>\<open>undefined\<close> nor \<^verbatim>\<open>null\<close>, and its \<^verbatim>\<open>name\<close> is absent, \<^verbatim>\<open>null\<close> or a
  string.
\<close>

fun nil_or_string :: "jsval \<Rightarrow> bool" where
  "nil_or_string JUndefined = True"
| "nil_or_string JNull = True"
| "nil_or_string (JString s) = True"
| "nil_or_string _ = False"

definition name_nil_or_string :: "jsval \<Rightarrow> bool" where
  "name_nil_or_string user =
     (case dot_name user of Inl ex \<Rightarrow> False | Inr nm \<Rightarrow> nil_or_string nm)"

text \<open>
  The contract of the greeting in the specification's words: the first
  whitespace-delimited token of the name, that is, the first maximal run of characters
  that are not whitespace.
\<close>

definition is_whitespace :: "char \<Rightarrow> bool" where
  "is_whitespace c = (c \<in> set [CHR '' '', CHR 0x09, CHR 0x0A, CHR 0x0B, CHR 0x0C, CHR 0x0D])"

definition spec_first_token :: "string \<Rightarrow> string" where
  "spec_first_token s = takeWhile (\<lambda>c. \<not> is_whitespace c) (dropWhile is_whitespace s)"

subsection \<open>The quotation workflows\<close>

text \<open>
  What awaiting a promise gives: the value it resolves to, the reason it rejects with
  (thrown at the \<^verbatim>\<open>await\<close>), or nothing when it never settles. An \<^verbatim>\<open>async\<close>
  function returns such a promise in turn.
\<close>

datatype 'a promise = Resolved 'a | Rejected jsval | Pending

datatype UserServiceErrors = USER_NOT_FOUND | SERVICE_NOT_AVAILABLE

datatype ('e, 'a) Either = Left 'e | Right 'a

record UserDetails =
  name :: string
  email :: string
  age :: number

text \<open>
  \<^verbatim>\<open>
  export async function getQuotation1(userEmail: string, getUserDetails: any): Promise<number> {
      try {
          const userDetails = await getUserDetails(userEmail);
          if (userDetails.age < 30) {
              return 500;
          } else {
              return 300;
          }
      } catch (ex) {
          console.error('Error in getting user details');
      }
      return 0;
  }
  \<close>
  The lookup is a parameter; here it yields user details when it resolves. The console
  is passed as a state: the lines written so far.
\<close>

definition getQuotation1 ::
  "string \<Rightarrow> (string \<Rightarrow> UserDetails promise) \<Rightarrow> string list \<Rightarrow> number promise \<times> string list" where
  "getQuotation1 userEmail getUserDetails console =
     (case getUserDetails userEmail of
        Resolved userDetails \<Rightarrow>
          if js_less (age userDetails) (Finite 30) then (Resolved (Finite 500), console)
          else (Resolved (Finite 300), console)
      | Rejected ex \<Rightarrow> (Resolved (Finite 0), console @ [''Error in getting user details''])
      | Pending \<Rightarrow> (Pending, console))"

text \<open>
  \<^verbatim>\<open>
  export async function getQuotation2(
      userEmail: string,
      getUserDetails: getUserDetails1Type,
  ): Promise<number> {
      const userDetailsOrError = await getUserDetails(userEmail);
      if (isRight(userDetailsOrError)) {
          const userDetails = userDetailsOrError.right;
          if (userDetails.age < 30) {
              return 500;
          } else {
              return 300;
          }
      } else {
          return 0;
      }
  }
  \<close>
  There is no \<^verbatim>\<open>try\<close> here: a rejection of the lookup rejects the returned promise.
\<close>

definition getQuotation2 ::
  "string \<Rightarrow> (string \<Rightarrow> (UserServiceErrors, UserDetails) Either promise) \<Rightarrow> number promise" where
  "getQuotation2 userEmail getUserDetails =
     (case getUserDetails userEmail of
        Resolved userDetailsOrError \<Rightarrow>
          (case userDetailsOrError of
             Right userDetails \<Rightarrow>
               if js_less (age userDetails) (Finite 30) then Resolved (Finite 500)
               else Resolved (Finite 300)
           | Left err \<Rightarrow> Resolved (Finite 0))
      | Rejected ex \<Rightarrow> Rejected ex
      | Pending \<Rightarrow> Pending)"

subsection \<open>Fixtures of the test suite\<close>

text \<open>
  The stand-ins of \<^verbatim>\<open>test/errorHandling.test.ts\<close>: a stub that resolves to a given
  value, a stub that rejects with a given reason, the two users of the greeting test and
  the user details of the quotation tests, with the age left open.
\<close>

definition resolves :: "'a \<Rightarrow> string \<Rightarrow> 'a promise" where
  "resolves v = (\<lambda>userEmail. Resolved v)"

definition rejects :: "jsval \<Rightarrow> string \<Rightarrow> 'a promise" where
  "rejects reason = (\<lambda>userEmail. Rejected reason)"

definition test_user :: jsval where
  "test_user =
     JObject [(''name'', JString ''John Watson''), (''email'', JString ''john.w@gmail.com'')]"

definition test_anotherUser :: jsval where
  "test_anotherUser = JObject [(''email'', JString ''john.w@gmail.com'')]"

definition test_details :: "number \<Rightarrow> UserDetails" where
  "test_details a = \<lparr>name = ''John Watson'', email = ''john.w@gmail.com'', age = a\<rparr>"

section \<open>Properties\<close>

subsection \<open>Safe indexed access\<close>

lemma js_index_short: "length xs \<le> k \<Longrightarrow> js_index xs k = None"
  by (simp add: js_index_def)

lemma js_index_in_range: "k < length xs \<Longrightarrow> js_index xs k = Some (xs ! k)"
  by (simp add: js_index_def)

text \<open>
  Claim C2. For every list of numbers, \<open>squareOfSecondElement\<close> returns 0 when the list has
  fewer than 2 elements, and the square of the element at index 1 when the list has at
  least 2 elements.
\<close>

theorem squareOfSecondElement_spec:
  "(length list < 2 \<longrightarrow> squareOfSecondElement list = 0) \<and>
   (2 \<le> length list \<longrightarrow> squareOfSecondElement list = list ! 1 * list ! 1)"
proof (intro conjI impI)
  assume "length list < 2"
  then have "js_index list 1 = None"
    by (intro js_index_short) simp
  then show "squareOfSecondElement list = 0"
    by (simp add: squareOfSecondElement_def isNil_opt_def)
next
  assume "2 \<le> length list"
  then have "js_index list 1 = Some (list ! 1)"
    by (intro js_index_in_range) simp
  then show "squareOfSecondElement list = list ! 1 * list ! 1"
    by (simp add: squareOfSecondElement_def isNil_opt_def)
qed

theorem squareOfSecondElement_spec_witness:
  "length [1 :: int] < 2 \<and> squareOfSecondElement [1 :: int] = 0 \<and>
   2 \<le> length [1, 2 :: int] \<and> squareOfSecondElement [1, 2 :: int] = 4"
  using squareOfSecondElement_spec [of "[1 :: int]"]
    squareOfSecondElement_spec [of "[1, 2 :: int]"]
  by simp

subsection \<open>Splitting at a character\<close>

lemma js_split_not_Nil: "js_split c s \<noteq> []"
  by (induction s) (auto split: list.splits)

text \<open>The model of \<^verbatim>\<open>split\<close> loses nothing: joining the pieces gives the string back.\<close>

lemma length_js_split: "length (js_split c s) = Suc (count_list s c)"
  by (induction s) (auto split: list.splits simp: js_split_not_Nil)

lemma concat_js_split: "concat (map (\<lambda>w. w @ [c]) (js_split c s)) = s @ [c]"
  by (induction s) (auto split: list.splits simp: js_split_not_Nil)

text \<open>The piece at index 0 is the part of the string before the first separator.\<close>

lemma js_index_split_0: "js_index (js_split c s) 0 = Some (takeWhile (\<lambda>x. x \<noteq> c) s)"
proof (induction s)
  case Nil
  show ?case by (simp add: js_index_def)
next
  case (Cons x xs)
  then show ?case
    by (cases "js_split c xs") (auto simp: js_index_def js_split_not_Nil split: if_splits)
qed

subsection \<open>The greetings, case by case\<close>

lemma error_is_TypeError: "(ex :: error) = TypeError"
  by (cases ex)

lemma nil_or_string_cases: "nil_or_string v \<longleftrightarrow> isNil v \<or> (\<exists>s. v = JString s)"
  by (cases v) simp_all

lemma getGreeting_string:
  "dot_name user = Inr (JString s) \<Longrightarrow>
   getGreeting user = Inr (''Hi '' @ takeWhile (\<lambda>c. c \<noteq> CHR '' '') s)"
  by (simp add: getGreeting_def getGreeting_try_def js_index_split_0 plus_str_def)

lemma getGreeting1_string:
  "dot_name user = Inr (JString s) \<Longrightarrow>
   getGreeting1 user = Inr (''Hi '' @ takeWhile (\<lambda>c. c \<noteq> CHR '' '') s)"
  by (simp add: getGreeting1_def js_index_split_0 plus_str_def)

lemma getGreeting_nil: "dot_name user = Inr v \<Longrightarrow> isNil v \<Longrightarrow> getGreeting user = Inr ''Hi ''"
  by (cases v) (simp_all add: getGreeting_def getGreeting_try_def)

lemma getGreeting1_nil: "dot_name user = Inr v \<Longrightarrow> isNil v \<Longrightarrow> getGreeting1 user = Inr ''Hi ''"
  by (simp add: getGreeting1_def)

lemma getGreeting_other:
  "dot_name user = Inr v \<Longrightarrow> \<not> nil_or_string v \<Longrightarrow> getGreeting user = Inr ''Hi ''"
  by (cases v) (simp_all add: getGreeting_def getGreeting_try_def)

lemma getGreeting1_other:
  "dot_name user = Inr v \<Longrightarrow> \<not> nil_or_string v \<Longrightarrow> getGreeting1 user = Inl TypeError"
  by (cases v) (simp_all add: getGreeting1_def)

lemma getGreeting_no_user: "dot_name user = Inl ex \<Longrightarrow> getGreeting user = Inr ''Hi ''"
  by (simp add: getGreeting_def getGreeting_try_def)

lemma getGreeting1_no_user: "dot_name user = Inl ex \<Longrightarrow> getGreeting1 user = Inl ex"
  by (simp add: getGreeting1_def)

text \<open>The exception-based greeting returns on every input, and what it returns starts with "Hi ".\<close>

lemma getGreeting_total: "\<exists>s. getGreeting user = Inr s \<and> prefix ''Hi '' s"
proof (cases "dot_name user")
  case (Inl ex)
  then show ?thesis by (simp add: getGreeting_no_user)
next
  case (Inr v)
  show ?thesis
  proof (cases "nil_or_string v")
    case False
    with Inr show ?thesis by (simp add: getGreeting_other)
  next
    case True
    then consider "isNil v" | s where "v = JString s"
      by (auto simp: nil_or_string_cases)
    then show ?thesis
    proof cases
      case 1
      with Inr show ?thesis by (simp add: getGreeting_nil)
    next
      case 2
      with Inr show ?thesis by (simp add: getGreeting_string)
    qed
  qed
qed

text \<open>The precondition-based greeting returns exactly on the users its check covers.\<close>

lemma getGreeting1_returns_iff: "(\<exists>s. getGreeting1 user = Inr s) \<longleftrightarrow> name_nil_or_string user"
proof (cases "dot_name user")
  case (Inl ex)
  then show ?thesis by (simp add: getGreeting1_no_user name_nil_or_string_def)
next
  case (Inr v)
  show ?thesis
  proof (cases "nil_or_string v")
    case False
    with Inr show ?thesis by (simp add: getGreeting1_other name_nil_or_string_def)
  next
    case True
    then consider "isNil v" | s where "v = JString s"
      by (auto simp: nil_or_string_cases)
    then show ?thesis
    proof cases
      case 1
      with Inr True show ?thesis by (simp add: getGreeting1_nil name_nil_or_string_def)
    next
      case 2
      with Inr True show ?thesis by (simp add: getGreeting1_string name_nil_or_string_def)
    qed
  qed
qed

lemma getGreeting1_prefix: "getGreeting1 user = Inr r \<Longrightarrow> prefix ''Hi '' r"
  by (auto simp: getGreeting1_def plus_str_def js_index_split_0
      split: sum.splits if_splits elim!: call_split.elims)

text \<open>
  Outside those users the two greetings differ: the exception-based one falls back to
  "Hi ", the precondition-based one lets the TypeError through.
\<close>

lemma greeting_differ:
  assumes "\<not> name_nil_or_string user"
  shows "getGreeting user = Inr ''Hi '' \<and> getGreeting1 user = Inl TypeError"
proof (cases "dot_name user")
  case (Inl ex)
  then have "getGreeting1 user = Inl ex" by (rule getGreeting1_no_user)
  moreover have "ex = TypeError" by (rule error_is_TypeError)
  ultimately show ?thesis using Inl by (simp add: getGreeting_no_user)
next
  case (Inr v)
  with assms have "\<not> nil_or_string v" by (simp add: name_nil_or_string_def)
  with Inr show ?thesis by (simp add: getGreeting_other getGreeting1_other)
qed

subsection \<open>Equivalence of the two greetings\<close>

text \<open>
  Claim C1, as amended. For every user that is neither \<^verbatim>\<open>undefined\<close> nor \<^verbatim>\<open>null\<close> and
  whose \<^verbatim>\<open>name\<close> is absent, \<^verbatim>\<open>undefined\<close>, \<^verbatim>\<open>null\<close> or a string, the
  exception-based greeting \<open>getGreeting\<close> and the precondition-based greeting
  \<open>getGreeting1\<close> return the same string. (As first stated, for every input including a
  \<^verbatim>\<open>null\<close> user and a name that is not a string, the claim fails: see the counterexample
  that follows.)
\<close>

theorem greeting_equiv:
  assumes "name_nil_or_string user"
  shows "getGreeting1 user = getGreeting user"
proof (cases "dot_name user")
  case (Inl ex)
  with assms show ?thesis by (simp add: name_nil_or_string_def)
next
  case (Inr v)
  with assms have "nil_or_string v" by (simp add: name_nil_or_string_def)
  then consider "isNil v" | s where "v = JString s"
    by (auto simp: nil_or_string_cases)
  then show ?thesis
  proof cases
    case 1
    with Inr show ?thesis by (simp add: getGreeting_nil getGreeting1_nil)
  next
    case 2
    with Inr show ?thesis by (simp add: getGreeting_string getGreeting1_string)
  qed
qed

theorem greeting_equiv_witness:
  "name_nil_or_string test_user \<and> getGreeting1 test_user = getGreeting test_user \<and>
   getGreeting test_user = Inr ''Hi John'' \<and>
   name_nil_or_string test_anotherUser \<and>
   getGreeting1 test_anotherUser = getGreeting test_anotherUser \<and>
   getGreeting test_anotherUser = Inr ''Hi ''"
  using greeting_equiv [of test_user] greeting_equiv [of test_anotherUser]
  by (simp add: name_nil_or_string_def test_user_def test_anotherUser_def
      getGreeting_def getGreeting_try_def js_index_def plus_str_def)

text \<open>
  On the user \<^verbatim>\<open>null\<close> the exception-based greeting returns "Hi " and the
  precondition-based one throws at its first read of \<^verbatim>\<open>user.name\<close>.
\<close>

theorem greeting_equiv_counterexample:
  "getGreeting JNull = Inr ''Hi '' \<and> getGreeting1 JNull = Inl TypeError \<and>
   getGreeting1 JNull \<noteq> getGreeting JNull"
  by (simp add: getGreeting_def getGreeting_try_def getGreeting1_def)

subsection \<open>The contract of the greetings\<close>

text \<open>
  Claim C3, as amended. For every user whose \<^verbatim>\<open>name\<close> can be read, each greeting
  implementation returns "Hi " followed by the part of the name before its first space
  character (the whole name when it has no space) when the name is a string, and exactly
  "Hi " when the name is absent or \<^verbatim>\<open>null\<close>. (As first stated, with the first
  whitespace-delimited token, the claim fails on a name with a tab: see the
  counterexample that follows.)
\<close>

theorem greeting_contract:
  "(dot_name user = Inr (JString s) \<longrightarrow>
      getGreeting user = Inr (''Hi '' @ takeWhile (\<lambda>c. c \<noteq> CHR '' '') s) \<and>
      getGreeting1 user = Inr (''Hi '' @ takeWhile (\<lambda>c. c \<noteq> CHR '' '') s)) \<and>
   (dot_name user = Inr v \<and> isNil v \<longrightarrow>
      getGreeting user = Inr ''Hi '' \<and> getGreeting1 user = Inr ''Hi '')"
  by (simp add: getGreeting_string getGreeting1_string getGreeting_nil getGreeting1_nil)

theorem greeting_contract_witness:
  "dot_name test_user = Inr (JString ''John Watson'') \<and>
   getGreeting test_user = Inr ''Hi John'' \<and> getGreeting1 test_user = Inr ''Hi John'' \<and>
   dot_name test_anotherUser = Inr JUndefined \<and> isNil JUndefined \<and>
   getGreeting test_anotherUser = Inr ''Hi '' \<and> getGreeting1 test_anotherUser = Inr ''Hi ''"
  using greeting_contract [of test_user "''John Watson''" JUndefined]
    greeting_contract [of test_anotherUser "[]" JUndefined]
  by (simp add: test_user_def test_anotherUser_def)

text \<open>
  The name "John", a tab, "Watson": its first whitespace-delimited token is "John", and
  the greeting keeps the whole name, since only the space character separates.
\<close>

theorem greeting_token_counterexample:
  "dot_name (JObject [(''name'', JString (''John'' @ [CHR 0x09] @ ''Watson''))])
     = Inr (JString (''John'' @ [CHR 0x09] @ ''Watson'')) \<and>
   spec_first_token (''John'' @ [CHR 0x09] @ ''Watson'') = ''John'' \<and>
   getGreeting (JObject [(''name'', JString (''John'' @ [CHR 0x09] @ ''Watson''))])
     = Inr (''Hi John'' @ [CHR 0x09] @ ''Watson'') \<and>
   getGreeting (JObject [(''name'', JString (''John'' @ [CHR 0x09] @ ''Watson''))])
     \<noteq> Inr (''Hi '' @ spec_first_token (''John'' @ [CHR 0x09] @ ''Watson''))"
  by (simp add: spec_first_token_def is_whitespace_def getGreeting_def getGreeting_try_def
      js_index_def plus_str_def)

subsection \<open>Returning normally\<close>

text \<open>
  Claim C8, as amended. \<open>getGreeting\<close> returns normally for every user, and
  \<open>squareOfSecondElement\<close> yields a value for every list of numbers (0 or the square of
  an element); \<open>getGreeting1\<close> returns normally exactly for the users that are neither
  \<^verbatim>\<open>undefined\<close> nor \<^verbatim>\<open>null\<close> and whose \<^verbatim>\<open>name\<close> is absent, \<^verbatim>\<open>undefined\<close>,
  \<^verbatim>\<open>null\<close> or a string, and throws a TypeError to its caller for every other user.
  (As first stated, for users whose name is not a string, the claim fails: see the
  counterexample that follows.)
\<close>

theorem greeting_returns:
  "(\<exists>s. getGreeting user = Inr s) \<and>
   ((\<exists>s. getGreeting1 user = Inr s) \<longleftrightarrow> name_nil_or_string user) \<and>
   (squareOfSecondElement list = 0 \<or> (\<exists>v \<in> set list. squareOfSecondElement list = v * v))"
proof (intro conjI)
  from getGreeting_total [of user] show "\<exists>s. getGreeting user = Inr s" by blast
  show "(\<exists>s. getGreeting1 user = Inr s) \<longleftrightarrow> name_nil_or_string user"
    by (rule getGreeting1_returns_iff)
  show "squareOfSecondElement list = 0 \<or> (\<exists>v \<in> set list. squareOfSecondElement list = v * v)"
    by (auto simp: squareOfSecondElement_def isNil_opt_def js_index_def)
qed

theorem greeting_returns_witness:
  "name_nil_or_string test_user \<and> getGreeting1 test_user = Inr ''Hi John'' \<and>
   getGreeting test_user = Inr ''Hi John'' \<and>
   \<not> name_nil_or_string JUndefined \<and> getGreeting1 JUndefined = Inl TypeError \<and>
   squareOfSecondElement [1, 2 :: int] = 2 * 2"
  using greeting_returns [of test_user "[1, 2 :: int]"]
    greeting_returns [of JUndefined "[1, 2 :: int]"]
  by (simp add: test_user_def name_nil_or_string_def getGreeting1_def getGreeting_def
      getGreeting_try_def js_index_def plus_str_def squareOfSecondElement_def isNil_opt_def)

text \<open>
  A user whose name is the number 5: the name is not nil, so the precondition-based
  greeting calls \<^verbatim>\<open>split\<close> on it, and the TypeError reaches the caller.
\<close>

theorem getGreeting1_throws_counterexample:
  "getGreeting1 (JObject [(''name'', JNumber (Finite 5))]) = Inl TypeError"
  by (simp add: getGreeting1_def)

subsection \<open>The prefix of the greetings\<close>

text \<open>
  Claim C10. For every user input, the string returned by \<open>getGreeting\<close> and by
  \<open>getGreeting1\<close> starts with the prefix "Hi ": \<open>getGreeting\<close> returns such a string on
  every input; every string that \<open>getGreeting1\<close> returns is such a string, and it returns
  one on every user its precondition check covers.
\<close>

theorem greeting_prefix:
  "(\<exists>s. getGreeting user = Inr s \<and> prefix ''Hi '' s) \<and>
   (\<forall>r. getGreeting1 user = Inr r \<longrightarrow> prefix ''Hi '' r) \<and>
   (name_nil_or_string user \<longrightarrow> (\<exists>r. getGreeting1 user = Inr r))"
  using getGreeting_total [of user] getGreeting1_prefix [of user]
    getGreeting1_returns_iff [of user]
  by blast

theorem greeting_prefix_witness:
  "name_nil_or_string test_user \<and> getGreeting1 test_user = Inr ''Hi John'' \<and>
   prefix ''Hi '' ''Hi John'' \<and>
   getGreeting1 test_anotherUser = Inr ''Hi '' \<and> prefix ''Hi '' ''Hi ''"
proof -
  have a: "getGreeting1 test_user = Inr ''Hi John''"
    by (simp add: test_user_def getGreeting1_def js_index_def plus_str_def)
  have b: "getGreeting1 test_anotherUser = Inr ''Hi ''"
    by (simp add: test_anotherUser_def getGreeting1_def)
  have c: "name_nil_or_string test_user"
    by (simp add: test_user_def name_nil_or_string_def)
  from greeting_prefix [of test_user] a have "prefix ''Hi '' ''Hi John''" by simp
  moreover from greeting_prefix [of test_anotherUser] b have "prefix ''Hi '' ''Hi ''" by simp
  ultimately show ?thesis using a b c by simp
qed

subsection \<open>The quotation workflows, case by case\<close>

lemma js_greater_eq_not_less: "js_greater_eq a b \<Longrightarrow> \<not> js_less a b"
  by (simp add: js_greater_eq_def)

lemma getQuotation1_resolved:
  "getUserDetails userEmail = Resolved d \<Longrightarrow>
   getQuotation1 userEmail getUserDetails console =
     (Resolved (if js_less (age d) (Finite 30) then Finite 500 else Finite 300), console)"
  by (simp add: getQuotation1_def)

lemma getQuotation1_rejected:
  "getUserDetails userEmail = Rejected reason \<Longrightarrow>
   getQuotation1 userEmail getUserDetails console =
     (Resolved (Finite 0), console @ [''Error in getting user details''])"
  by (simp add: getQuotation1_def)

lemma getQuotation2_right:
  "getUserDetails userEmail = Resolved (Right d) \<Longrightarrow>
   getQuotation2 userEmail getUserDetails =
     Resolved (if js_less (age d) (Finite 30) then Finite 500 else Finite 300)"
  by (simp add: getQuotation2_def)

lemma getQuotation2_left:
  "getUserDetails userEmail = Resolved (Left err) \<Longrightarrow>
   getQuotation2 userEmail getUserDetails = Resolved (Finite 0)"
  by (simp add: getQuotation2_def)

subsection \<open>The exception-based quotation\<close>

text \<open>
  Claim C4. For every user email and lookup function, \<open>getQuotation1\<close> returns 500 when
  the lookup resolves to user details with age < 30, returns 300 when it resolves with
  age >= 30, and returns 0 whenever the lookup's promise rejects, for any rejection
  reason (having written its one line to the console).
\<close>

theorem getQuotation1_spec:
  "(getUserDetails userEmail = Resolved d \<and> js_less (age d) (Finite 30) \<longrightarrow>
      fst (getQuotation1 userEmail getUserDetails console) = Resolved (Finite 500)) \<and>
   (getUserDetails userEmail = Resolved d \<and> js_greater_eq (age d) (Finite 30) \<longrightarrow>
      fst (getQuotation1 userEmail getUserDetails console) = Resolved (Finite 300)) \<and>
   (getUserDetails userEmail = Rejected reason \<longrightarrow>
      getQuotation1 userEmail getUserDetails console =
        (Resolved (Finite 0), console @ [''Error in getting user details'']))"
  by (simp add: getQuotation1_resolved getQuotation1_rejected js_greater_eq_not_less)

theorem getQuotation1_spec_witness:
  "resolves (test_details (Finite 20)) ''john.w@gmail.com'' = Resolved (test_details (Finite 20)) \<and>
   js_less (age (test_details (Finite 20))) (Finite 30) \<and>
   fst (getQuotation1 ''john.w@gmail.com'' (resolves (test_details (Finite 20))) [])
     = Resolved (Finite 500) \<and>
   resolves (test_details (Finite 35)) ''john.w@gmail.com'' = Resolved (test_details (Finite 35)) \<and>
   js_greater_eq (age (test_details (Finite 35))) (Finite 30) \<and>
   fst (getQuotation1 ''john.w@gmail.com'' (resolves (test_details (Finite 35))) [])
     = Resolved (Finite 300) \<and>
   (rejects (JString ''Timeout Error'') ''john.w@gmail.com'' :: UserDetails promise)
     = Rejected (JString ''Timeout Error'') \<and>
   getQuotation1 ''john.w@gmail.com'' (rejects (JString ''Timeout Error'')) []
     = (Resolved (Finite 0), [''Error in getting user details''])"
  using getQuotation1_spec [where getUserDetails = "resolves (test_details (Finite 20))"
      and userEmail = "''john.w@gmail.com''" and d = "test_details (Finite 20)" and console = "[]"]
    getQuotation1_spec [where getUserDetails = "resolves (test_details (Finite 35))"
      and userEmail = "''john.w@gmail.com''" and d = "test_details (Finite 35)" and console = "[]"]
    getQuotation1_spec [where
      getUserDetails = "rejects (JString ''Timeout Error'') :: string \<Rightarrow> UserDetails promise"
      and userEmail = "''john.w@gmail.com''" and reason = "JString ''Timeout Error''"
      and console = "[]"]
  by (simp add: resolves_def rejects_def test_details_def js_greater_eq_def)

subsection \<open>The result-type quotation\<close>

text \<open>
  Claim C5. For every user email and every lookup returning a LookupResult,
  \<open>getQuotation2\<close> returns 500 when the result is a success (Right) with age < 30, returns
  300 when it is a success with age >= 30, and returns 0 when the result is a failure
  (Left), identically for both failure reasons USER-NOT-FOUND and SERVICE-NOT-AVAILABLE.
\<close>

theorem getQuotation2_spec:
  "(getUserDetails userEmail = Resolved (Right d) \<and> js_less (age d) (Finite 30) \<longrightarrow>
      getQuotation2 userEmail getUserDetails = Resolved (Finite 500)) \<and>
   (getUserDetails userEmail = Resolved (Right d) \<and> js_greater_eq (age d) (Finite 30) \<longrightarrow>
      getQuotation2 userEmail getUserDetails = Resolved (Finite 300)) \<and>
   (getUserDetails userEmail = Resolved (Left err) \<longrightarrow>
      getQuotation2 userEmail getUserDetails = Resolved (Finite 0))"
  by (simp add: getQuotation2_right getQuotation2_left js_greater_eq_not_less)

theorem getQuotation2_spec_witness:
  "js_less (age (test_details (Finite 20))) (Finite 30) \<and>
   getQuotation2 ''john.w@gmail.com'' (resolves (Right (test_details (Finite 20))))
     = Resolved (Finite 500) \<and>
   js_greater_eq (age (test_details (Finite 35))) (Finite 30) \<and>
   getQuotation2 ''john.w@gmail.com'' (resolves (Right (test_details (Finite 35))))
     = Resolved (Finite 300) \<and>
   getQuotation2 ''john.w@gmail.com'' (resolves (Left USER_NOT_FOUND)) = Resolved (Finite 0) \<and>
   getQuotation2 ''john.w@gmail.com'' (resolves (Left SERVICE_NOT_AVAILABLE)) = Resolved (Finite 0)"
  using getQuotation2_spec [where getUserDetails = "resolves (Right (test_details (Finite 20)))"
      and userEmail = "''john.w@gmail.com''" and d = "test_details (Finite 20)"]
    getQuotation2_spec [where getUserDetails = "resolves (Right (test_details (Finite 35)))"
      and userEmail = "''john.w@gmail.com''" and d = "test_details (Finite 35)"]
    getQuotation2_spec [where getUserDetails = "resolves (Left USER_NOT_FOUND)"
      and userEmail = "''john.w@gmail.com''" and err = USER_NOT_FOUND]
    getQuotation2_spec [where getUserDetails = "resolves (Left SERVICE_NOT_AVAILABLE)"
      and userEmail = "''john.w@gmail.com''" and err = SERVICE_NOT_AVAILABLE]
  by (simp add: resolves_def test_details_def js_greater_eq_def)

subsection \<open>The boundary of the pricing rule\<close>

text \<open>
  Claim C6. For a lookup yielding user details with age exactly 30, both \<open>getQuotation1\<close>
  and \<open>getQuotation2\<close> return 300: the age comparison is strict less-than.
\<close>

theorem quotation_age_30:
  assumes "age d = Finite 30"
    and "getUserDetails userEmail = Resolved d"
    and "getUserDetailsB userEmail = Resolved (Right d)"
  shows "fst (getQuotation1 userEmail getUserDetails console) = Resolved (Finite 300) \<and>
         getQuotation2 userEmail getUserDetailsB = Resolved (Finite 300)"
  using assms by (simp add: getQuotation1_resolved getQuotation2_right)

theorem quotation_age_30_witness:
  "age (test_details (Finite 30)) = Finite 30 \<and>
   fst (getQuotation1 ''john.w@gmail.com'' (resolves (test_details (Finite 30))) [])
     = Resolved (Finite 300) \<and>
   getQuotation2 ''john.w@gmail.com'' (resolves (Right (test_details (Finite 30))))
     = Resolved (Finite 300)"
  using quotation_age_30 [where d = "test_details (Finite 30)"
      and getUserDetails = "resolves (test_details (Finite 30))"
      and getUserDetailsB = "resolves (Right (test_details (Finite 30)))"
      and userEmail = "''john.w@gmail.com''" and console = "[]"]
  by (simp add: resolves_def test_details_def)

subsection \<open>Equivalence of the two quotation workflows\<close>

text \<open>
  Claim C7. The two quotation workflows are equivalent: for every UserDetails \<open>d\<close>,
  \<open>getQuotation1\<close> with a lookup resolving to \<open>d\<close> returns the same premium as
  \<open>getQuotation2\<close> with a lookup resolving to \<open>Right d\<close>; and \<open>getQuotation1\<close> with a
  rejecting lookup returns the same premium, 0, as \<open>getQuotation2\<close> with a lookup
  resolving to any \<open>Left\<close> failure reason.
\<close>

theorem quotation_workflows_equiv:
  "(getUserDetails userEmail = Resolved d \<and> getUserDetailsB userEmail = Resolved (Right d) \<longrightarrow>
      fst (getQuotation1 userEmail getUserDetails console)
        = getQuotation2 userEmail getUserDetailsB) \<and>
   (getUserDetails userEmail = Rejected reason \<and>
    getUserDetailsB userEmail = Resolved (Left err) \<longrightarrow>
      fst (getQuotation1 userEmail getUserDetails console) = Resolved (Finite 0) \<and>
      getQuotation2 userEmail getUserDetailsB = Resolved (Finite 0))"
  by (simp add: getQuotation1_resolved getQuotation1_rejected getQuotation2_right
      getQuotation2_left)

theorem quotation_workflows_equiv_witness:
  "fst (getQuotation1 ''john.w@gmail.com'' (resolves (test_details (Finite 20))) [])
     = getQuotation2 ''john.w@gmail.com'' (resolves (Right (test_details (Finite 20)))) \<and>
   getQuotation2 ''john.w@gmail.com'' (resolves (Right (test_details (Finite 20))))
     = Resolved (Finite 500) \<and>
   fst (getQuotation1 ''john.w@gmail.com'' (rejects (JString ''Timeout Error'')) [])
     = Resolved (Finite 0) \<and>
   getQuotation2 ''john.w@gmail.com'' (resolves (Left USER_NOT_FOUND)) = Resolved (Finite 0)"
  using quotation_workflows_equiv [where d = "test_details (Finite 20)"
      and getUserDetails = "resolves (test_details (Finite 20))"
      and getUserDetailsB = "resolves (Right (test_details (Finite 20)))"
      and userEmail = "''john.w@gmail.com''" and console = "[]"]
    quotation_workflows_equiv [where reason = "JString ''Timeout Error''"
      and getUserDetails = "rejects (JString ''Timeout Error'')"
      and getUserDetailsB = "resolves (Left USER_NOT_FOUND)" and err = USER_NOT_FOUND
      and userEmail = "''john.w@gmail.com''" and console = "[]"]
  by (simp add: resolves_def rejects_def test_details_def getQuotation2_def)

subsection \<open>The range of the premium\<close>

text \<open>
  Claim C9. For every user email and every lookup outcome (resolution with any user
  details or rejection for \<open>getQuotation1\<close>, any LookupResult for \<open>getQuotation2\<close>), the
  value returned by \<open>getQuotation1\<close> and by \<open>getQuotation2\<close> is one of exactly 0, 300 or
  500.
\<close>

theorem quotation_range:
  "(getUserDetails userEmail \<noteq> Pending \<longrightarrow>
      fst (getQuotation1 userEmail getUserDetails console)
        \<in> {Resolved (Finite 0), Resolved (Finite 300), Resolved (Finite 500)}) \<and>
   (getUserDetailsB userEmail = Resolved r \<longrightarrow>
      getQuotation2 userEmail getUserDetailsB
        \<in> {Resolved (Finite 0), Resolved (Finite 300), Resolved (Finite 500)})"
proof (intro conjI impI)
  assume "getUserDetails userEmail \<noteq> Pending"
  then show "fst (getQuotation1 userEmail getUserDetails console)
        \<in> {Resolved (Finite 0), Resolved (Finite 300), Resolved (Finite 500)}"
    by (cases "getUserDetails userEmail")
       (simp_all add: getQuotation1_resolved getQuotation1_rejected)
next
  assume "getUserDetailsB userEmail = Resolved r"
  then show "getQuotation2 userEmail getUserDetailsB
        \<in> {Resolved (Finite 0), Resolved (Finite 300), Resolved (Finite 500)}"
    by (cases r) (simp_all add: getQuotation2_right getQuotation2_left)
qed

theorem quotation_range_witness:
  "resolves (test_details NaN) ''john.w@gmail.com'' \<noteq> Pending \<and>
   fst (getQuotation1 ''john.w@gmail.com'' (resolves (test_details NaN)) [])
     = Resolved (Finite 300) \<and>
   getQuotation2 ''john.w@gmail.com'' (resolves (Left SERVICE_NOT_AVAILABLE))
     = Resolved (Finite 0)"
  using quotation_range [where getUserDetails = "resolves (test_details NaN)"
      and getUserDetailsB = "resolves (Left SERVICE_NOT_AVAILABLE)"
      and r = "Left SERVICE_NOT_AVAILABLE"
      and userEmail = "''john.w@gmail.com''" and console = "[]"]
  by (simp add: resolves_def test_details_def getQuotation1_def getQuotation2_def)

end
